theory Spec2Isabelle
  imports Main
begin

section \<open>GraphSentinel: threat intake, voice alert and incident log\<close>

text \<open>
  A shallow embedding of \<^verbatim>\<open>src/main.py\<close>: the classifier \<^verbatim>\<open>ada_analyze_threat\<close>,
  the voice adapter \<^verbatim>\<open>generate_voice_alert\<close>, the request handler
  \<^verbatim>\<open>process_threat\<close> and the two retrieval handlers \<^verbatim>\<open>get_voice_alert\<close> and
  \<^verbatim>\<open>get_threats\<close>. The module's global state (\<^verbatim>\<open>threat_log\<close> and the dictionary
  \<^verbatim>\<open>app.state.__dict__\<close>) is passed explicitly; the clock readings and the behaviour of
  the synthesis service are inputs; an exception of the HTTP client is the \<open>Inl\<close> branch
  of a sum. Python text is a \<open>string\<close> holding its UTF-8 bytes, a \<^verbatim>\<open>bytes\<close> value is a
  \<open>string\<close> too.
\<close>

subsection \<open>Python values and their text\<close>

type_synonym bytes = string

definition digit_char :: "nat \<Rightarrow> char" where
  "digit_char d = char_of (48 + d)"

fun digits10 :: "nat \<Rightarrow> string" where
  "digits10 n = (if n < 10 then [digit_char n] else digits10 (n div 10) @ [digit_char (n mod 10)])"

declare digits10.simps [simp del]

text \<open>\<^verbatim>\<open>str(i)\<close> of a Python integer.\<close>

definition str_int :: "int \<Rightarrow> string" where
  "str_int i = (if i < 0 then ''-'' @ digits10 (nat (- i)) else digits10 (nat i))"

text \<open>
  A value of the open \<^verbatim>\<open>details\<close> dictionary, as it arrives from JSON. A float, a list
  or a nested object is carried as the text \<^verbatim>\<open>str()\<close> gives for it (\<open>PRepr\<close>): the
  code only ever interpolates these values into f-strings.
\<close>

datatype pyval = PStr string | PInt int | PBool bool | PNone | PRepr string

fun py_str :: "pyval \<Rightarrow> string" where
  "py_str (PStr s) = s"
| "py_str (PInt i) = str_int i"
| "py_str (PBool b) = (if b then ''True'' else ''False'')"
| "py_str PNone = ''None''"
| "py_str (PRepr s) = s"

text \<open>\<^verbatim>\<open>f"{d.get(k, default)}"\<close>: the text of the stored value, or the default string.\<close>

definition get_str :: "(string \<rightharpoonup> pyval) \<Rightarrow> string \<Rightarrow> string \<Rightarrow> string" where
  "get_str d k dflt = (case d k of Some v \<Rightarrow> py_str v | None \<Rightarrow> dflt)"

text \<open>\<^verbatim>\<open>xs[-n:]\<close> for \<open>n > 0\<close>: the last \<open>n\<close> elements, the whole list when it is shorter.\<close>

definition last_n :: "nat \<Rightarrow> 'a list \<Rightarrow> 'a list" where
  "last_n n xs = drop (length xs - n) xs"

subsection \<open>Clock readings\<close>

text \<open>
  A naive \<^verbatim>\<open>datetime\<close> as Python holds it, with the constructor's range checks as
  \<open>valid_datetime\<close>.
\<close>

record datetime =
  year :: nat
  month :: nat
  day :: nat
  hour :: nat
  minute :: nat
  second :: nat
  microsecond :: nat

definition is_leap :: "nat \<Rightarrow> bool" where
  "is_leap y = (y mod 4 = 0 \<and> (y mod 100 \<noteq> 0 \<or> y mod 400 = 0))"

definition days_in_month :: "nat \<Rightarrow> nat \<Rightarrow> nat" where
  "days_in_month y m =
     (if m = 2 \<and> is_leap y then 29
      else [0, 31, 28, 31, 30, 31, 30, 31, 31, 30, 31, 30, 31] ! m)"

definition valid_datetime :: "datetime \<Rightarrow> bool" where
  "valid_datetime t =
     (1 \<le> year t \<and> year t \<le> 9999 \<and> 1 \<le> month t \<and> month t \<le> 12 \<and>
      1 \<le> day t \<and> day t \<le> days_in_month (year t) (month t) \<and>
      hour t < 24 \<and> minute t < 60 \<and> second t < 60 \<and> microsecond t < 1000000)"

definition days_before_year :: "nat \<Rightarrow> int" where
  "days_before_year y =
     (let p = int y - 1 in p * 365 + p div 4 - p div 100 + p div 400)"

definition days_before_month :: "nat \<Rightarrow> nat \<Rightarrow> int" where
  "days_before_month y m =
     [0, 0, 31, 59, 90, 120, 151, 181, 212, 243, 273, 304, 334] ! m
       + (if m > 2 \<and> is_leap y then 1 else 0)"

definition toordinal :: "datetime \<Rightarrow> int" where
  "toordinal t = days_before_year (year t) + days_before_month (year t) (month t) + int (day t)"

text \<open>
  The position of a reading on the time line, in microseconds: \<^verbatim>\<open>t1 - t2\<close> of two naive
  readings is the \<^verbatim>\<open>timedelta\<close> of this many microseconds.
\<close>

definition to_microseconds :: "datetime \<Rightarrow> int" where
  "to_microseconds t =
     ((toordinal t * 86400 + int (hour t) * 3600 + int (minute t) * 60 + int (second t)) * 1000000
        + int (microsecond t))"

text \<open>A decimal field padded with zeros to a width, as \<^verbatim>\<open>%m\<close>, \<^verbatim>\<open>%d\<close>, \<^verbatim>\<open>%H\<close> print it.\<close>

definition zpad :: "nat \<Rightarrow> nat \<Rightarrow> string" where
  "zpad w n = replicate (w - length (digits10 n)) (CHR ''0'') @ digits10 n"

text \<open>
  \<^verbatim>\<open>t.strftime('%Y%m%d%H%M%S')\<close>. The C library prints \<^verbatim>\<open>%Y\<close> as the decimal year
  with no padding (four digits from the year 1000 on) and the other fields on two digits.
\<close>

definition strftime_YmdHMS :: "datetime \<Rightarrow> string" where
  "strftime_YmdHMS t =
     digits10 (year t) @ zpad 2 (month t) @ zpad 2 (day t) @
     zpad 2 (hour t) @ zpad 2 (minute t) @ zpad 2 (second t)"

text \<open>Two readings that agree in every field down to the second.\<close>

definition same_second :: "datetime \<Rightarrow> datetime \<Rightarrow> bool" where
  "same_second t1 t2 =
     (year t1 = year t2 \<and> month t1 = month t2 \<and> day t1 = day t2 \<and>
      hour t1 = hour t2 \<and> minute t1 = minute t2 \<and> second t1 = second t2)"

text \<open>
  \<^verbatim>\<open>t.isoformat()\<close> of an aware reading in UTC: the fraction is printed only when the
  microsecond is not zero.
\<close>

definition isoformat_utc :: "datetime \<Rightarrow> string" where
  "isoformat_utc t =
     zpad 4 (year t) @ ''-'' @ zpad 2 (month t) @ ''-'' @ zpad 2 (day t) @ ''T'' @
     zpad 2 (hour t) @ '':'' @ zpad 2 (minute t) @ '':'' @ zpad 2 (second t) @
     (if microsecond t \<noteq> 0 then ''.'' @ zpad 6 (microsecond t) else '''') @ ''+00:00''"

subsection \<open>The alert and its analysis\<close>

record ThreatAlert =
  source :: string
  alert_type :: string
  severity :: string
  details :: "string \<rightharpoonup> pyval"

record AdaAnalysis =
  threat_id :: string
  summary :: string
  reasoning :: "string list"
  risk_score :: int
  recommended_actions :: "string list"
  auto_remediated :: bool
  voice_message :: "string option"

text \<open>The emoji that open the reasoning lines, as the UTF-8 bytes of the source file.\<close>

definition emoji_magnifier :: string where
  "emoji_magnifier = [CHR 0xF0, CHR 0x9F, CHR 0x94, CHR 0x8D]"

definition emoji_chart :: string where
  "emoji_chart = [CHR 0xF0, CHR 0x9F, CHR 0x93, CHR 0x8A]"

definition emoji_globe :: string where
  "emoji_globe = [CHR 0xF0, CHR 0x9F, CHR 0x8C, CHR 0x8D]"

definition emoji_brain :: string where
  "emoji_brain = [CHR 0xF0, CHR 0x9F, CHR 0xA7, CHR 0xA0]"

definition emoji_bolt :: string where
  "emoji_bolt = [CHR 0xE2, CHR 0x9A, CHR 0xA1]"

definition emoji_shield :: string where
  "emoji_shield = [CHR 0xF0, CHR 0x9F, CHR 0x9B, CHR 0xA1, CHR 0xEF, CHR 0xB8, CHR 0x8F]"

definition brute_force_actions :: "string list" where
  "brute_force_actions =
     [''Block source IPs in Conditional Access'',
      ''Enable MFA enforcement for targeted accounts'',
      ''Increase sign-in risk policy to High'',
      ''Notify security team via voice alert'']"

definition impossible_travel_actions :: "string list" where
  "impossible_travel_actions =
     [''Require re-authentication'',
      ''Enable location-based Conditional Access'',
      ''Flag session for review'']"

definition malware_detected_actions :: "string list" where
  "malware_detected_actions =
     [''Isolate affected device'',
      ''Revoke active sessions'',
      ''Trigger Defender scan'',
      ''Alert SOC team'']"

text \<open>
  \<^verbatim>\<open>ada_analyze_threat(alert)\<close>; \<open>now\<close> is the reading of \<^verbatim>\<open>datetime.now()\<close> (local,
  naive) the call takes.
\<close>

definition ada_analyze_threat :: "datetime \<Rightarrow> ThreatAlert \<Rightarrow> AdaAnalysis" where
  "ada_analyze_threat now alert =
     (let tid = ''THR-'' @ strftime_YmdHMS now;
          trace =
            [emoji_magnifier @ '' Detected '' @ alert_type alert @ '' from '' @ source alert,
             emoji_chart @ '' Analyzing patterns... '' @
               get_str (details alert) ''attempts'' ''multiple'' @ '' attempts detected'',
             emoji_globe @ '' GeoIP lookup: Origins from '' @
               get_str (details alert) ''origins'' ''unknown regions'',
             emoji_brain @ '' Correlating with knowledge graph...'',
             emoji_bolt @ '' Risk assessment: '' @ severity alert @ '' severity confirmed'',
             emoji_shield @ '' Checking available remediation options...''];
          actions =
            (if alert_type alert = ''BruteForce'' then brute_force_actions
             else if alert_type alert = ''ImpossibleTravel'' then impossible_travel_actions
             else if alert_type alert = ''MalwareDetected'' then malware_detected_actions
             else [])
      in \<lparr>threat_id = tid,
          summary = alert_type alert @ '' attack detected - Auto-remediation initiated'',
          reasoning = trace,
          risk_score = (if severity alert = ''High'' then 85 else 60),
          recommended_actions = actions,
          auto_remediated = True,
          voice_message = None\<rparr>)"

subsection \<open>The voice adapter\<close>

record config =
  ELEVENLABS_KEY :: string
  ELEVENLABS_VOICE :: string

text \<open>The one request the adapter sends: \<^verbatim>\<open>client.post(url, headers, json, timeout)\<close>.\<close>

record http_request =
  url :: string
  headers :: "(string \<times> string) list"
  json_text :: string
  json_model_id :: string
  json_voice_settings :: "(string \<times> string) list"
  timeout :: string

text \<open>
  What the call does: \<^verbatim>\<open>httpx\<close> raises on a transport failure or on the expiry of the
  timeout, and returns a response (status code and content) otherwise.
\<close>

datatype httpx_error = ConnectError | TimeoutException | TransportError string

datatype http_outcome = Raises httpx_error | Responds nat bytes

definition uuml :: string where
  "uuml = [CHR 0xC3, CHR 0xBC]"

definition auml :: string where
  "auml = [CHR 0xC3, CHR 0xA4]"

definition ouml :: string where
  "ouml = [CHR 0xC3, CHR 0xB6]"

definition voice_text :: "AdaAnalysis \<Rightarrow> ThreatAlert \<Rightarrow> string" where
  "voice_text analysis alert =
     (let origins = get_str (details alert) ''origins'' ''mehreren Regionen'';
          attempts = get_str (details alert) ''attempts'' ''tausende''
      in concat
        [''\<newline>'',
         ''    Hi, hier ist Ada vom Security Operations Center.\<newline>'',
         ''    \<newline>'',
         ''    Kurzes Update: In den letzten Stunden gab es '', attempts, '' Login-Versuche \<newline>'',
         ''    aus '', origins, ''.\<newline>'',
         ''    \<newline>'',
         ''    Ich habe mir erlaubt, die Conditional Access Policy vor'', uuml,
           ''bergehend zu versch'', auml, ''rfen \<newline>'',
         ''    und MFA auf allen Admin-Accounts zu erzwingen.\<newline>'',
         ''    \<newline>'',
         ''    Der betroffene Kollege ohne MFA wurde automatisch gesch'', uuml, ''tzt - \<newline>'',
         ''    er kann sich Montag bei mir bedanken.\<newline>'',
         ''    \<newline>'',
         ''    Threat ID ist '', threat_id analysis, ''. Details im Dashboard.\<newline>'',
         ''    \<newline>'',
         ''    Sch'', ouml, ''nes Wochenende!\<newline>'',
         ''    ''])"

definition voice_request :: "config \<Rightarrow> string \<Rightarrow> http_request" where
  "voice_request cfg message =
     \<lparr>url = ''https://api.elevenlabs.io/v1/text-to-speech/'' @ ELEVENLABS_VOICE cfg,
      headers = [(''xi-api-key'', ELEVENLABS_KEY cfg), (''Content-Type'', ''application/json'')],
      json_text = message,
      json_model_id = ''eleven_multilingual_v2'',
      json_voice_settings = [(''stability'', ''0.5''), (''similarity_boost'', ''0.75'')],
      timeout = ''30.0''\<rparr>"

text \<open>
  \<^verbatim>\<open>generate_voice_alert(analysis, alert)\<close>. \<open>post\<close> is the synthesis service as the call
  meets it. The result carries the requests that were sent, and either the exception that
  left the function or the bytes it returned. The function has no handler around the
  request, so what \<^verbatim>\<open>client.post\<close> raises leaves it unchanged.
\<close>

definition generate_voice_alert ::
  "config \<Rightarrow> (http_request \<Rightarrow> http_outcome) \<Rightarrow> AdaAnalysis \<Rightarrow> ThreatAlert
     \<Rightarrow> http_request list \<times> (httpx_error + bytes)" where
  "generate_voice_alert cfg post analysis alert =
     (let message = voice_text analysis alert
      in if ELEVENLABS_KEY cfg = [] then ([], Inr [])
         else
           (let req = voice_request cfg message
            in case post req of
                 Raises e \<Rightarrow> ([req], Inl e)
               | Responds status_code content \<Rightarrow>
                   if status_code = 200 then ([req], Inr content) else ([req], Inr [])))"

subsection \<open>The in-memory state and the handlers\<close>

record LogEntry =
  timestamp :: string
  alert :: ThreatAlert
  analysis :: AdaAnalysis

text \<open>
  \<open>threat_log\<close> is the module's list; \<open>state_dict\<close> is \<^verbatim>\<open>app.state.__dict__\<close> at the
  keys the handlers use (those that start with \<^verbatim>\<open>voice_\<close>).
\<close>

record app_state =
  threat_log :: "LogEntry list"
  state_dict :: "string \<rightharpoonup> bytes"

definition init_state :: app_state where
  "init_state = \<lparr>threat_log = [], state_dict = Map.empty\<rparr>"

text \<open>\<^verbatim>\<open>threat_log.append(record)\<close>.\<close>

definition log_append :: "app_state \<Rightarrow> LogEntry \<Rightarrow> app_state" where
  "log_append st e = st\<lparr>threat_log := threat_log st @ [e]\<rparr>"

definition audio_key :: "string \<Rightarrow> string" where
  "audio_key tid = ''voice_'' @ tid"

record ThreatResponse = AdaAnalysis +
  voice_url :: "string option"

definition respond :: "AdaAnalysis \<Rightarrow> string option \<Rightarrow> ThreatResponse" where
  "respond a v = AdaAnalysis.extend a \<lparr>voice_url = v\<rparr>"

text \<open>
  \<^verbatim>\<open>process_threat(alert, background_tasks)\<close>: \<open>now\<close> is the reading of
  \<^verbatim>\<open>datetime.now()\<close> inside the classifier, \<open>now_utc\<close> the reading of
  \<^verbatim>\<open>datetime.now(timezone.utc)\<close> for the log record. The result is the state the call
  leaves, the requests it sent, and the exception or the response body.
\<close>

definition process_threat ::
  "config \<Rightarrow> (http_request \<Rightarrow> http_outcome) \<Rightarrow> datetime \<Rightarrow> datetime \<Rightarrow> app_state \<Rightarrow> ThreatAlert
     \<Rightarrow> app_state \<times> http_request list \<times> (httpx_error + ThreatResponse)" where
  "process_threat cfg post now now_utc st a =
     (let an = ada_analyze_threat now a;
          st1 = log_append st \<lparr>timestamp = isoformat_utc now_utc, alert = a, analysis = an\<rparr>
      in if ELEVENLABS_KEY cfg \<noteq> [] then
           (case generate_voice_alert cfg post an a of
              (reqs, Inl e) \<Rightarrow> (st1, reqs, Inl e)
            | (reqs, Inr audio_bytes) \<Rightarrow>
                if audio_bytes \<noteq> [] then
                  (st1\<lparr>state_dict := (state_dict st1)(audio_key (threat_id an) \<mapsto> audio_bytes)\<rparr>,
                   reqs,
                   Inr (respond an (Some (''/api/voice/'' @ threat_id an))))
                else (st1, reqs, Inr (respond an None)))
         else (st1, [], Inr (respond an None)))"

text \<open>The identifier in the body a call returns, when it returns one.\<close>

definition response_id ::
  "app_state \<times> http_request list \<times> (httpx_error + ThreatResponse) \<Rightarrow> string option" where
  "response_id res = (case snd (snd res) of Inl e \<Rightarrow> None | Inr r \<Rightarrow> Some (threat_id r))"

text \<open>The \<^verbatim>\<open>voice_url\<close> of the body a call returns; \<open>None\<close> when the call raises.\<close>

definition response_voice_url ::
  "app_state \<times> http_request list \<times> (httpx_error + ThreatResponse) \<Rightarrow> string option option" where
  "response_voice_url res = (case snd (snd res) of Inl e \<Rightarrow> None | Inr r \<Rightarrow> Some (voice_url r))"

datatype voice_reply =
  JSONResponse "(string \<times> string) list" nat
| Response bytes string

text \<open>
  \<^verbatim>\<open>get_voice_alert(threat_id)\<close>: \<^verbatim>\<open>not audio_bytes\<close> holds for a missing key and for
  empty bytes alike.
\<close>

definition get_voice_alert :: "app_state \<Rightarrow> string \<Rightarrow> voice_reply" where
  "get_voice_alert st tid =
     (case state_dict st (audio_key tid) of
        None \<Rightarrow> JSONResponse [(''error'', ''Voice not found'')] 404
      | Some audio_bytes \<Rightarrow>
          if audio_bytes = [] then JSONResponse [(''error'', ''Voice not found'')] 404
          else Response audio_bytes ''audio/mpeg'')"

text \<open>\<^verbatim>\<open>get_threats()\<close>: the value under \<^verbatim>\<open>"threats"\<close>.\<close>

definition get_threats :: "app_state \<Rightarrow> LogEntry list" where
  "get_threats st = last_n 50 (threat_log st)"

text \<open>A run of requests: each call with its alert, its clock readings and the service it meets.\<close>

record call =
  call_alert :: ThreatAlert
  call_now :: datetime
  call_utc :: datetime
  call_post :: "http_request \<Rightarrow> http_outcome"

definition call_entry :: "call \<Rightarrow> LogEntry" where
  "call_entry c =
     \<lparr>timestamp = isoformat_utc (call_utc c), alert = call_alert c,
      analysis = ada_analyze_threat (call_now c) (call_alert c)\<rparr>"

fun run_calls :: "config \<Rightarrow> app_state \<Rightarrow> call list \<Rightarrow> app_state" where
  "run_calls cfg st [] = st"
| "run_calls cfg st (c # cs) =
     run_calls cfg (fst (process_threat cfg (call_post c) (call_now c) (call_utc c) st (call_alert c))) cs"

subsection \<open>Concrete inputs\<close>

text \<open>
  The alert with the defaults of the \<^verbatim>\<open>ThreatAlert\<close> model, the two configurations (no
  credential, and a credential with the default voice), clock readings, and three
  behaviours of the synthesis service.
\<close>

definition alert_of :: "string \<Rightarrow> string \<Rightarrow> ThreatAlert" where
  "alert_of ty sev = \<lparr>source = ''Defender'', alert_type = ty, severity = sev, details = Map.empty\<rparr>"

definition default_alert :: ThreatAlert where
  "default_alert = alert_of ''BruteForce'' ''High''"

definition cfg_no_key :: config where
  "cfg_no_key = \<lparr>ELEVENLABS_KEY = [], ELEVENLABS_VOICE = ''21m00Tcm4TlvDq8ikWAM''\<rparr>"

definition cfg_with_key :: config where
  "cfg_with_key = \<lparr>ELEVENLABS_KEY = ''sk_demo'', ELEVENLABS_VOICE = ''21m00Tcm4TlvDq8ikWAM''\<rparr>"

definition clock :: "nat \<Rightarrow> nat \<Rightarrow> datetime" where
  "clock s us =
     \<lparr>year = 2025, month = 3, day = 14, hour = 9, minute = 30, second = s, microsecond = us\<rparr>"

text \<open>
  The night of 26 October 2025 in the zone Europe/Berlin: the wall clock shows 02:30:00
  twice, at 00:30:00 UTC (offset +02:00) and again at 01:30:00 UTC (offset +01:00).
\<close>

definition wall_clock_0230 :: datetime where
  "wall_clock_0230 =
     \<lparr>year = 2025, month = 10, day = 26, hour = 2, minute = 30, second = 0, microsecond = 0\<rparr>"

definition utc_0030 :: datetime where
  "utc_0030 =
     \<lparr>year = 2025, month = 10, day = 26, hour = 0, minute = 30, second = 0, microsecond = 0\<rparr>"

definition utc_0130 :: datetime where
  "utc_0130 =
     \<lparr>year = 2025, month = 10, day = 26, hour = 1, minute = 30, second = 0, microsecond = 0\<rparr>"

definition service_unreachable :: "http_request \<Rightarrow> http_outcome" where
  "service_unreachable req = Raises ConnectError"

definition service_timed_out :: "http_request \<Rightarrow> http_outcome" where
  "service_timed_out req = Raises TimeoutException"

definition service_replies :: "nat \<Rightarrow> bytes \<Rightarrow> http_request \<Rightarrow> http_outcome" where
  "service_replies status_code content req = Responds status_code content"

definition sample_call :: "nat \<Rightarrow> call" where
  "sample_call i =
     \<lparr>call_alert = default_alert, call_now = clock i 0, call_utc = clock i 0,
      call_post = service_unreachable\<rparr>"

text \<open>
  A call that meets a service answering 200 with audio bytes, and a state whose dictionary
  holds empty bytes under an identifier's key.
\<close>

definition audio_call :: call where
  "audio_call =
     \<lparr>call_alert = default_alert, call_now = clock 0 0, call_utc = clock 0 0,
      call_post = service_replies 200 ''ID3-audio''\<rparr>"

definition empty_blob_state :: app_state where
  "empty_blob_state =
     \<lparr>threat_log = [], state_dict = [audio_key ''THR-20250314093000'' \<mapsto> []]\<rparr>"

section \<open>Decimal fields\<close>

lemma digit_char_inj: "a < 10 \<Longrightarrow> b < 10 \<Longrightarrow> digit_char a = digit_char b \<Longrightarrow> a = b"
  by (simp add: digit_char_def char_of_eq_iff take_bit_eq_mod)

lemma digit_char_0: "digit_char 0 = CHR ''0''"
  unfolding digit_char_def by code_simp

lemma digits10_small: "n < 10 \<Longrightarrow> digits10 n = [digit_char n]"
  by (simp add: digits10.simps)

lemma digits10_step: "10 \<le> n \<Longrightarrow> digits10 n = digits10 (n div 10) @ [digit_char (n mod 10)]"
  by (subst digits10.simps) simp

lemma digits10_nonempty: "digits10 n \<noteq> []"
  by (subst digits10.simps) simp

lemma zpad2: "n < 100 \<Longrightarrow> zpad 2 n = [digit_char (n div 10), digit_char (n mod 10)]"
proof (cases "n < 10")
  case True
  then show ?thesis by (simp add: zpad_def digits10_small digit_char_0 [symmetric])
next
  case False
  assume "n < 100"
  with False have "n div 10 < 10" "10 \<le> n" by auto
  then show ?thesis by (simp add: zpad_def digits10_step digits10_small)
qed

lemma digits10_two: "10 \<le> n \<Longrightarrow> n < 100 \<Longrightarrow> digits10 n = [digit_char (n div 10), digit_char (n mod 10)]"
  by (simp add: digits10_step digits10_small)

lemma digits10_three:
  assumes "100 \<le> n" "n < 1000"
  shows "digits10 n = [digit_char (n div 100), digit_char (n div 10 mod 10), digit_char (n mod 10)]"
proof -
  have a: "10 \<le> n div 10" "n div 10 < 100" "10 \<le> n" using assms by auto
  have b: "n div 10 div 10 = n div 100" by (simp add: div_mult2_eq[symmetric])
  show ?thesis using digits10_step[OF a(3)] digits10_two[OF a(1) a(2)] b by simp
qed

lemma digits10_four:
  assumes "1000 \<le> n" "n < 10000"
  shows "digits10 n = [digit_char (n div 1000), digit_char (n div 100 mod 10),
    digit_char (n div 10 mod 10), digit_char (n mod 10)]"
proof -
  have a: "100 \<le> n div 10" "n div 10 < 1000" "10 \<le> n" using assms by auto
  have b: "n div 10 div 100 = n div 1000" "n div 10 div 10 = n div 100"
    by (simp_all add: div_mult2_eq[symmetric])
  show ?thesis using digits10_step[OF a(3)] digits10_three[OF a(1) a(2)] b by simp
qed

lemma replicate_small: "replicate 2 c = [c, c]" "replicate 3 c = [c, c, c]"
  by (simp_all add: numeral_2_eq_2 numeral_3_eq_3)

lemma zpad4: "n < 10000 \<Longrightarrow>
  zpad 4 n = [digit_char (n div 1000), digit_char (n div 100 mod 10), digit_char (n div 10 mod 10), digit_char (n mod 10)]"
proof -
  assume b: "n < 10000"
  consider "n < 10" | "10 \<le> n" "n < 100" | "100 \<le> n" "n < 1000" | "1000 \<le> n"
    by linarith
  then show ?thesis
  proof cases
    case 1
    then show ?thesis by (simp add: zpad_def digits10_small digit_char_0 [symmetric] replicate_small)
  next
    case 2
    then show ?thesis by (simp add: zpad_def digits10_two digit_char_0 [symmetric] replicate_small)
  next
    case 3
    then show ?thesis by (simp add: zpad_def digits10_three digit_char_0 [symmetric])
  next
    case 4
    with b show ?thesis by (simp add: zpad_def digits10_four)
  qed
qed

lemma two_digits_inj:
  assumes "a < 100" "b < 100" "digit_char (a div 10) = digit_char (b div 10)"
    "digit_char (a mod 10) = digit_char (b mod 10)"
  shows "a = b"
proof -
  have "a div 10 = b div 10" using assms by (intro digit_char_inj) auto
  moreover have "a mod 10 = b mod 10" using assms by (intro digit_char_inj) auto
  ultimately show ?thesis by (metis div_mult_mod_eq)
qed

lemma zpad2_inj: "a < 100 \<Longrightarrow> b < 100 \<Longrightarrow> zpad 2 a = zpad 2 b \<Longrightarrow> a = b"
  by (simp add: zpad2 two_digits_inj)

lemma zpad2_length: "n < 100 \<Longrightarrow> length (zpad 2 n) = 2"
  by (simp add: zpad2)

lemma days_in_month_le: "1 \<le> m \<Longrightarrow> m \<le> 12 \<Longrightarrow> days_in_month y m \<le> 31"
proof -
  assume "1 \<le> m" "m \<le> 12"
  then have "m = 1 \<or> m = 2 \<or> m = 3 \<or> m = 4 \<or> m = 5 \<or> m = 6 \<or> m = 7 \<or> m = 8 \<or> m = 9
      \<or> m = 10 \<or> m = 11 \<or> m = 12" by presburger
  then show ?thesis by (auto simp: days_in_month_def)
qed

section \<open>Decimal years\<close>

lemma digits10_length_one: "length (digits10 n) = 1 \<Longrightarrow> n < 10"
proof (rule ccontr)
  assume l: "length (digits10 n) = 1" and "\<not> n < 10"
  then have "10 \<le> n" by simp
  from digits10_step[OF this] l have "digits10 (n div 10) = []" by simp
  with digits10_nonempty show False by blast
qed

lemma digits10_inj: "digits10 a = digits10 b \<Longrightarrow> a = b"
proof (induction a arbitrary: b rule: digits10.induct)
  case (1 n)
  show ?case
  proof (cases "n < 10")
    case True
    then have e: "digits10 b = [digit_char n]" using "1.prems" by (simp add: digits10_small)
    then have "b < 10" by (intro digits10_length_one) simp
    with e True show ?thesis by (simp add: digits10_small digit_char_inj)
  next
    case False
    then have n: "10 \<le> n" by simp
    have b: "10 \<le> b"
    proof (rule ccontr)
      assume "\<not> 10 \<le> b"
      then have "digits10 b = [digit_char b]" by (simp add: digits10_small)
      with "1.prems" have "length (digits10 n) = 1" by simp
      from digits10_length_one[OF this] False show False by simp
    qed
    from "1.prems" have "digits10 (n div 10) @ [digit_char (n mod 10)] =
        digits10 (b div 10) @ [digit_char (b mod 10)]"
      by (simp add: digits10_step[OF n] digits10_step[OF b])
    then have d: "digits10 (n div 10) = digits10 (b div 10)"
      and m: "digit_char (n mod 10) = digit_char (b mod 10)" by simp_all
    from "1.IH"[OF False d] have "n div 10 = b div 10" .
    moreover have "n mod 10 = b mod 10" by (rule digit_char_inj[OF _ _ m]) simp_all
    ultimately show ?thesis by (metis div_mult_mod_eq)
  qed
qed

section \<open>The incident identifier\<close>

lemma valid_datetime_bounds:
  assumes "valid_datetime t"
  shows "year t < 10000" "month t < 100" "day t < 100" "hour t < 100" "minute t < 100"
    "second t < 100" "microsecond t < 1000000"
proof -
  from assms have m: "1 \<le> month t" "month t \<le> 12" and d: "day t \<le> days_in_month (year t) (month t)"
    by (simp_all add: valid_datetime_def)
  from days_in_month_le[OF m, of "year t"] d show "day t < 100" by linarith
qed (use assms in \<open>simp_all add: valid_datetime_def\<close>)

lemma strftime_YmdHMS_inj:
  assumes v1: "valid_datetime t1" and v2: "valid_datetime t2"
    and eq: "strftime_YmdHMS t1 = strftime_YmdHMS t2"
  shows "same_second t1 t2"
proof -
  note b1 = valid_datetime_bounds[OF v1] and b2 = valid_datetime_bounds[OF v2]
  let ?r1 = "zpad 2 (month t1) @ zpad 2 (day t1) @ zpad 2 (hour t1) @ zpad 2 (minute t1) @ zpad 2 (second t1)"
  let ?r2 = "zpad 2 (month t2) @ zpad 2 (day t2) @ zpad 2 (hour t2) @ zpad 2 (minute t2) @ zpad 2 (second t2)"
  have lr: "length ?r1 = length ?r2"
    using b1 b2 by (simp add: zpad2_length)
  from eq have "digits10 (year t1) @ ?r1 = digits10 (year t2) @ ?r2"
    by (simp add: strftime_YmdHMS_def)
  with lr have y: "digits10 (year t1) = digits10 (year t2)" and r: "?r1 = ?r2"
    by simp_all
  have len: "length (zpad 2 (month t1)) = length (zpad 2 (month t2))"
    "length (zpad 2 (day t1)) = length (zpad 2 (day t2))"
    "length (zpad 2 (hour t1)) = length (zpad 2 (hour t2))"
    "length (zpad 2 (minute t1)) = length (zpad 2 (minute t2))"
    using b1 b2 by (simp_all add: zpad2_length)
  from r len have "zpad 2 (month t1) = zpad 2 (month t2)"
    "zpad 2 (day t1) = zpad 2 (day t2)" "zpad 2 (hour t1) = zpad 2 (hour t2)"
    "zpad 2 (minute t1) = zpad 2 (minute t2)" "zpad 2 (second t1) = zpad 2 (second t2)"
    by simp_all
  with y show ?thesis
    using b1 b2 by (auto simp: same_second_def dest: digits10_inj zpad2_inj)
qed

lemma same_second_strftime: "same_second t1 t2 \<Longrightarrow> strftime_YmdHMS t1 = strftime_YmdHMS t2"
  by (simp add: same_second_def strftime_YmdHMS_def)

lemma same_second_close:
  assumes "valid_datetime t1" "valid_datetime t2" and "same_second t1 t2"
  shows "\<bar>to_microseconds t1 - to_microseconds t2\<bar> < 1000000"
proof -
  have "to_microseconds t1 - to_microseconds t2 = int (microsecond t1) - int (microsecond t2)"
    using assms(3) by (simp add: same_second_def to_microseconds_def toordinal_def)
  moreover have "microsecond t1 < 1000000" "microsecond t2 < 1000000"
    using assms(1,2) by (simp_all add: valid_datetime_def)
  ultimately show ?thesis by linarith
qed

lemma threat_id_ada: "threat_id (ada_analyze_threat now a) = ''THR-'' @ strftime_YmdHMS now"
  by (simp add: ada_analyze_threat_def Let_def)

lemma ids_equal_iff:
  assumes "valid_datetime t1" "valid_datetime t2"
  shows "threat_id (ada_analyze_threat t1 a) = threat_id (ada_analyze_threat t2 b) \<longleftrightarrow> same_second t1 t2"
  using strftime_YmdHMS_inj[OF assms] same_second_strftime[of t1 t2]
  by (auto simp: threat_id_ada)

lemma distinct_seconds_distinct_ids:
  assumes "valid_datetime t1" "valid_datetime t2"
    and "1000000 \<le> \<bar>to_microseconds t1 - to_microseconds t2\<bar>"
  shows "threat_id (ada_analyze_threat t1 a) \<noteq> threat_id (ada_analyze_threat t2 b)"
proof
  assume "threat_id (ada_analyze_threat t1 a) = threat_id (ada_analyze_threat t2 b)"
  then have "same_second t1 t2" by (simp add: ids_equal_iff[OF assms(1,2)])
  from same_second_close[OF assms(1,2) this] assms(3)
  show False by simp
qed

section \<open>The handler, step by step\<close>

lemma process_threat_log:
  "threat_log (fst (process_threat cfg post now now_utc st a)) =
     threat_log st @ [\<lparr>timestamp = isoformat_utc now_utc, alert = a, analysis = ada_analyze_threat now a\<rparr>]"
  by (simp add: process_threat_def Let_def log_append_def split: prod.splits sum.splits)

lemma process_threat_response_id:
  "snd (snd (process_threat cfg post now now_utc st a)) = Inr r \<Longrightarrow>
     threat_id r = threat_id (ada_analyze_threat now a)"
  by (auto simp: process_threat_def Let_def respond_def AdaAnalysis.extend_def
      split: prod.splits sum.splits if_splits)

lemma run_calls_log: "threat_log (run_calls cfg st cs) = threat_log st @ map call_entry cs"
  by (induction cs arbitrary: st) (simp_all add: process_threat_log call_entry_def)

section \<open>The classifier\<close>

text \<open>
  C3. For every alert and every clock reading \<^verbatim>\<open>ada_analyze_threat\<close> returns an analysis
  (the source has no failing branch) whose risk score is 85 when the severity is the
  string \<^verbatim>\<open>High\<close> and 60 for any other severity, so always 60 or 85; whose reasoning
  trace has exactly 6 entries; and whose identifier and summary are not empty.
\<close>

theorem C3_classify_score_trace_id:
  "risk_score (ada_analyze_threat now a) = (if severity a = ''High'' then 85 else 60) \<and>
   risk_score (ada_analyze_threat now a) \<in> {60, 85} \<and>
   length (reasoning (ada_analyze_threat now a)) = 6 \<and>
   threat_id (ada_analyze_threat now a) \<noteq> [] \<and>
   summary (ada_analyze_threat now a) \<noteq> []"
  by (simp add: ada_analyze_threat_def Let_def)

text \<open>
  C4. The recommended actions are chosen by exact match on the alert type: the four
  BruteForce actions, the three ImpossibleTravel actions, the four MalwareDetected
  actions, each in the order of the source, and the empty list for any other type; the
  analysis is marked auto-remediated in every case, also for an unknown type.
\<close>

theorem C4_classify_actions:
  "(alert_type a = ''BruteForce'' \<longrightarrow>
      recommended_actions (ada_analyze_threat now a) =
        [''Block source IPs in Conditional Access'',
         ''Enable MFA enforcement for targeted accounts'',
         ''Increase sign-in risk policy to High'',
         ''Notify security team via voice alert'']) \<and>
   (alert_type a = ''ImpossibleTravel'' \<longrightarrow>
      recommended_actions (ada_analyze_threat now a) =
        [''Require re-authentication'',
         ''Enable location-based Conditional Access'',
         ''Flag session for review'']) \<and>
   (alert_type a = ''MalwareDetected'' \<longrightarrow>
      recommended_actions (ada_analyze_threat now a) =
        [''Isolate affected device'',
         ''Revoke active sessions'',
         ''Trigger Defender scan'',
         ''Alert SOC team'']) \<and>
   (alert_type a \<noteq> ''BruteForce'' \<and> alert_type a \<noteq> ''ImpossibleTravel'' \<and>
    alert_type a \<noteq> ''MalwareDetected'' \<longrightarrow>
      recommended_actions (ada_analyze_threat now a) = []) \<and>
   auto_remediated (ada_analyze_threat now a)"
  by (simp add: ada_analyze_threat_def Let_def brute_force_actions_def
      impossible_travel_actions_def malware_detected_actions_def)

theorem C4_classify_actions_witness:
  "recommended_actions (ada_analyze_threat (clock 0 0) (alert_of ''BruteForce'' ''High'')) =
        [''Block source IPs in Conditional Access'',
         ''Enable MFA enforcement for targeted accounts'',
         ''Increase sign-in risk policy to High'',
         ''Notify security team via voice alert''] \<and>
   recommended_actions (ada_analyze_threat (clock 0 0) (alert_of ''ImpossibleTravel'' ''Medium'')) =
        [''Require re-authentication'',
         ''Enable location-based Conditional Access'',
         ''Flag session for review''] \<and>
   recommended_actions (ada_analyze_threat (clock 0 0) (alert_of ''MalwareDetected'' ''Low'')) =
        [''Isolate affected device'',
         ''Revoke active sessions'',
         ''Trigger Defender scan'',
         ''Alert SOC team''] \<and>
   recommended_actions (ada_analyze_threat (clock 0 0) (alert_of ''PortScan'' ''High'')) = [] \<and>
   auto_remediated (ada_analyze_threat (clock 0 0) (alert_of ''PortScan'' ''High''))"
  using C4_classify_actions [of "alert_of ''BruteForce'' ''High''" "clock 0 0"]
    C4_classify_actions [of "alert_of ''ImpossibleTravel'' ''Medium''" "clock 0 0"]
    C4_classify_actions [of "alert_of ''MalwareDetected'' ''Low''" "clock 0 0"]
    C4_classify_actions [of "alert_of ''PortScan'' ''High''" "clock 0 0"]
  by (simp add: alert_of_def)

section \<open>Identifiers of two calls\<close>

lemma threat_id_respond: "threat_id (respond an v) = threat_id an"
  by (simp add: respond_def AdaAnalysis.extend_def)

lemma voice_url_respond: "voice_url (respond an v) = v"
  by (simp add: respond_def AdaAnalysis.extend_def)

lemma process_threat_no_key:
  "ELEVENLABS_KEY cfg = [] \<Longrightarrow>
   process_threat cfg post now now_utc st a =
     (log_append st \<lparr>timestamp = isoformat_utc now_utc, alert = a, analysis = ada_analyze_threat now a\<rparr>,
      [], Inr (respond (ada_analyze_threat now a) None))"
  by (simp add: process_threat_def Let_def)

lemma response_id_no_key:
  "ELEVENLABS_KEY cfg = [] \<Longrightarrow>
   response_id (process_threat cfg post now now_utc st a) = Some (''THR-'' @ strftime_YmdHMS now)"
  by (simp add: process_threat_no_key response_id_def threat_id_respond threat_id_ada)

lemma clock_valid: "s < 60 \<Longrightarrow> us < 1000000 \<Longrightarrow> valid_datetime (clock s us)"
  by (simp add: valid_datetime_def clock_def days_in_month_def)

lemma clock_microseconds:
  "to_microseconds (clock s us) - to_microseconds (clock s' us') =
     (int s - int s') * 1000000 + (int us - int us')"
  by (simp add: to_microseconds_def toordinal_def clock_def algebra_simps)

lemma strftime_wall_clock_0230: "strftime_YmdHMS wall_clock_0230 = ''20251026023000''"
  by code_simp

text \<open>
  C8, as stated, fails. The identifier is built from \<^verbatim>\<open>datetime.now()\<close>, the naive local
  wall clock, while the record's timestamp is the UTC reading. In the night the clocks are
  set back the wall clock repeats an hour: two calls with the same alert one hour apart
  (00:30:00 and 01:30:00 UTC on 26 October 2025, both 02:30:00 on the wall clock in
  Europe/Berlin) return the same identifier.
\<close>

theorem C8_repeated_wall_clock_counterexample:
  "to_microseconds utc_0130 - to_microseconds utc_0030 = 3600 * 1000000 \<and>
   response_id
     (process_threat cfg_no_key service_unreachable wall_clock_0230 utc_0030 init_state default_alert) =
     Some ''THR-20251026023000'' \<and>
   response_id
     (process_threat cfg_no_key service_unreachable wall_clock_0230 utc_0130
        (fst (process_threat cfg_no_key service_unreachable wall_clock_0230 utc_0030
           init_state default_alert))
        default_alert) =
     Some ''THR-20251026023000''"
proof -
  have k: "ELEVENLABS_KEY cfg_no_key = []" by (simp add: cfg_no_key_def)
  have d: "to_microseconds utc_0130 - to_microseconds utc_0030 = 3600 * 1000000"
    by (simp add: to_microseconds_def toordinal_def utc_0130_def utc_0030_def)
  show ?thesis
    using d by (simp add: response_id_no_key[OF k] strftime_wall_clock_0230)
qed

text \<open>
  C8, amended. Two calls of \<^verbatim>\<open>process_threat\<close> with the same alert, from any two states,
  that both return a response: each returned identifier is the prefix \<^verbatim>\<open>THR-\<close> followed
  by the call's reading of the local wall clock (\<^verbatim>\<open>datetime.now()\<close>) printed down to the
  second. The two identifiers are equal exactly when the two wall-clock readings agree
  down to the second; in particular they differ when the wall-clock readings lie at least
  one second apart. No earlier record is looked at: each call appends its own record.
\<close>

theorem C8_ids_follow_wall_clock:
  assumes "valid_datetime t1" and "valid_datetime t2"
    and "process_threat cfg post1 t1 u1 sta a = (sta', reqs1, Inr r1)"
    and "process_threat cfg post2 t2 u2 stb a = (stb', reqs2, Inr r2)"
  shows "threat_id r1 = ''THR-'' @ strftime_YmdHMS t1 \<and>
    threat_id r2 = ''THR-'' @ strftime_YmdHMS t2 \<and>
    (threat_id r1 = threat_id r2) = same_second t1 t2 \<and>
    (1000000 \<le> \<bar>to_microseconds t1 - to_microseconds t2\<bar> \<longrightarrow> threat_id r1 \<noteq> threat_id r2) \<and>
    threat_log sta' = threat_log sta @
      [\<lparr>timestamp = isoformat_utc u1, alert = a, analysis = ada_analyze_threat t1 a\<rparr>] \<and>
    threat_log stb' = threat_log stb @
      [\<lparr>timestamp = isoformat_utc u2, alert = a, analysis = ada_analyze_threat t2 a\<rparr>]"
proof -
  have i1: "threat_id r1 = threat_id (ada_analyze_threat t1 a)"
    using assms(3) by (intro process_threat_response_id[of cfg post1 t1 u1 sta a]) simp
  have i2: "threat_id r2 = threat_id (ada_analyze_threat t2 a)"
    using assms(4) by (intro process_threat_response_id[of cfg post2 t2 u2 stb a]) simp
  have l1: "threat_log sta' = threat_log sta @
      [\<lparr>timestamp = isoformat_utc u1, alert = a, analysis = ada_analyze_threat t1 a\<rparr>]"
    using process_threat_log[of cfg post1 t1 u1 sta a] assms(3) by simp
  have l2: "threat_log stb' = threat_log stb @
      [\<lparr>timestamp = isoformat_utc u2, alert = a, analysis = ada_analyze_threat t2 a\<rparr>]"
    using process_threat_log[of cfg post2 t2 u2 stb a] assms(4) by simp
  have e: "(threat_id r1 = threat_id r2) = same_second t1 t2"
    unfolding i1 i2 by (rule ids_equal_iff[OF assms(1,2)])
  have f: "1000000 \<le> \<bar>to_microseconds t1 - to_microseconds t2\<bar> \<longrightarrow> threat_id r1 \<noteq> threat_id r2"
    unfolding i1 i2 using distinct_seconds_distinct_ids[OF assms(1,2), of a a] by blast
  from i1 i2 have p: "threat_id r1 = ''THR-'' @ strftime_YmdHMS t1"
    "threat_id r2 = ''THR-'' @ strftime_YmdHMS t2" by (simp_all add: threat_id_ada)
  from p e f l1 l2 show ?thesis by blast
qed

theorem C8_ids_follow_wall_clock_witness:
  "valid_datetime (clock 7 900000) \<and> valid_datetime (clock 8 950000) \<and>
   1000000 \<le> \<bar>to_microseconds (clock 7 900000) - to_microseconds (clock 8 950000)\<bar> \<and>
   threat_id (respond (ada_analyze_threat (clock 7 900000) default_alert) None) \<noteq>
   threat_id (respond (ada_analyze_threat (clock 8 950000) default_alert) None)"
proof -
  let ?t1 = "clock 7 900000" and ?t2 = "clock 8 950000"
  have k: "ELEVENLABS_KEY cfg_no_key = []" by (simp add: cfg_no_key_def)
  have v1: "valid_datetime ?t1" and v2: "valid_datetime ?t2"
    by (simp_all add: clock_valid)
  have d: "1000000 \<le> \<bar>to_microseconds ?t1 - to_microseconds ?t2\<bar>"
    by (simp add: clock_microseconds)
  note p1 = process_threat_no_key[OF k, of service_unreachable ?t1 utc_0030 init_state default_alert]
  note p2 = process_threat_no_key[OF k, of service_unreachable ?t2 utc_0130 init_state default_alert]
  from C8_ids_follow_wall_clock[OF v1 v2 p1 p2] d
  have "threat_id (respond (ada_analyze_threat ?t1 default_alert) None) \<noteq>
      threat_id (respond (ada_analyze_threat ?t2 default_alert) None)" by blast
  with v1 v2 d show ?thesis by blast
qed

section \<open>The incident log\<close>

lemma last_n_length: "length (last_n n xs) = min n (length xs)"
  by (simp add: last_n_def)

lemma get_threats_run:
  "get_threats (run_calls cfg st cs) =
     drop (length (threat_log st @ map call_entry cs) - 50) (threat_log st @ map call_entry cs)"
  by (simp add: get_threats_def last_n_def run_calls_log)

lemma threat_log_init: "threat_log init_state = []"
  by (simp add: init_state_def)

text \<open>
  C1, as stated, fails: nothing is dropped when a record is appended. After 51 calls of
  \<^verbatim>\<open>process_threat\<close> on the empty log the stored list holds 51 records.
\<close>

theorem C1_stored_log_exceeds_cap_counterexample:
  "length (threat_log (run_calls cfg_no_key init_state (map sample_call [0..<51]))) = 51 \<and>
   \<not> length (threat_log (run_calls cfg_no_key init_state (map sample_call [0..<51]))) \<le> 50"
  by (simp add: run_calls_log threat_log_init)

text \<open>
  C1, amended. For every sequence of calls of \<^verbatim>\<open>process_threat\<close>, whatever the
  configuration and whatever the synthesis service does, the stored log is the old log
  followed by one record per call in arrival order: every record is kept, so the stored
  length is the old length plus the number of calls and has no bound. The cap of 50 is
  applied only when the log is read: \<^verbatim>\<open>get_threats\<close> returns at most 50 records.
\<close>

theorem C1_stored_log_keeps_every_record:
  "threat_log (run_calls cfg st cs) = threat_log st @ map call_entry cs \<and>
   length (threat_log (run_calls cfg st cs)) = length (threat_log st) + length cs \<and>
   length (get_threats (run_calls cfg st cs)) \<le> 50"
  by (simp add: run_calls_log get_threats_def last_n_length)

text \<open>
  C5. After any sequence of calls, \<^verbatim>\<open>get_threats\<close> returns the last 50 records of the
  log (all of them when there are fewer), in the order they were appended, oldest first:
  the log is the records left out followed by the window. After 60 calls, on the empty
  log or on any other, the window is exactly the records of calls 11 to 60 in order, so
  the records of the first 10 calls, and all older ones, are left out.
\<close>

theorem C5_recent_window:
  "length (get_threats (run_calls cfg st cs)) = min 50 (length (threat_log st) + length cs) \<and>
   take (length (threat_log st) + length cs - 50) (threat_log st @ map call_entry cs) @
     get_threats (run_calls cfg st cs) = threat_log st @ map call_entry cs \<and>
   (length cs = 60 \<longrightarrow>
      get_threats (run_calls cfg st cs) = map call_entry (drop 10 cs) \<and>
      length (get_threats (run_calls cfg st cs)) = 50 \<and>
      threat_log (run_calls cfg st cs) =
        threat_log st @ map call_entry (take 10 cs) @ get_threats (run_calls cfg st cs))"
proof -
  have a: "length (get_threats (run_calls cfg st cs)) = min 50 (length (threat_log st) + length cs)"
    by (simp add: get_threats_run)
  have b: "take (length (threat_log st) + length cs - 50) (threat_log st @ map call_entry cs) @
     get_threats (run_calls cfg st cs) = threat_log st @ map call_entry cs"
    unfolding get_threats_run by (simp only: length_append length_map append_take_drop_id)
  have c: "get_threats (run_calls cfg st cs) = map call_entry (drop 10 cs)"
    "length (get_threats (run_calls cfg st cs)) = 50"
    "threat_log (run_calls cfg st cs) =
        threat_log st @ map call_entry (take 10 cs) @ get_threats (run_calls cfg st cs)"
    if l: "length cs = 60"
  proof -
    have n: "length (threat_log st @ map call_entry cs) - 50 = length (threat_log st) + 10"
      using l by simp
    show w: "get_threats (run_calls cfg st cs) = map call_entry (drop 10 cs)"
      unfolding get_threats_run n by (simp add: drop_map)
    show "length (get_threats (run_calls cfg st cs)) = 50"
      using l by (simp add: w)
    have "map call_entry (take 10 cs) @ map call_entry (drop 10 cs) = map call_entry cs"
      by (simp only: map_append[symmetric] append_take_drop_id)
    then show "threat_log (run_calls cfg st cs) =
        threat_log st @ map call_entry (take 10 cs) @ get_threats (run_calls cfg st cs)"
      by (simp add: w run_calls_log)
  qed
  from a b c show ?thesis by blast
qed

theorem C5_recent_window_witness:
  "length (map sample_call [0..<60]) = 60 \<and>
   get_threats (run_calls cfg_no_key init_state (map sample_call [0..<60])) =
     map call_entry (map sample_call [10..<60]) \<and>
   length (get_threats (run_calls cfg_no_key init_state (map sample_call [0..<60]))) = 50"
proof -
  have l: "length (map sample_call [0..<60]) = 60" by simp
  have d: "drop 10 (map sample_call [0..<60]) = map sample_call [10..<60]"
    by (simp add: drop_map)
  from C5_recent_window[of cfg_no_key init_state "map sample_call [0..<60]"] l
  have "get_threats (run_calls cfg_no_key init_state (map sample_call [0..<60])) =
     map call_entry (drop 10 (map sample_call [0..<60]))"
    and "length (get_threats (run_calls cfg_no_key init_state (map sample_call [0..<60]))) = 50"
    by blast+
  with l d show ?thesis by simp
qed

section \<open>The voice adapter and the handler\<close>

lemma generate_voice_alert_no_key:
  "ELEVENLABS_KEY cfg = [] \<Longrightarrow> generate_voice_alert cfg post an a = ([], Inr [])"
  by (simp add: generate_voice_alert_def)

lemma generate_voice_alert_raises:
  "ELEVENLABS_KEY cfg \<noteq> [] \<Longrightarrow> post (voice_request cfg (voice_text an a)) = Raises e \<Longrightarrow>
   generate_voice_alert cfg post an a = ([voice_request cfg (voice_text an a)], Inl e)"
  by (simp add: generate_voice_alert_def Let_def)

lemma generate_voice_alert_responds:
  "ELEVENLABS_KEY cfg \<noteq> [] \<Longrightarrow> post (voice_request cfg (voice_text an a)) = Responds code content \<Longrightarrow>
   generate_voice_alert cfg post an a =
     ([voice_request cfg (voice_text an a)], Inr (if code = 200 then content else []))"
  by (simp add: generate_voice_alert_def Let_def)

lemma process_threat_raises:
  assumes "ELEVENLABS_KEY cfg \<noteq> []"
    and "post (voice_request cfg (voice_text (ada_analyze_threat now a) a)) = Raises e"
  shows "process_threat cfg post now now_utc st a =
     (log_append st \<lparr>timestamp = isoformat_utc now_utc, alert = a, analysis = ada_analyze_threat now a\<rparr>,
      [voice_request cfg (voice_text (ada_analyze_threat now a) a)], Inl e)"
  using assms by (simp add: process_threat_def Let_def generate_voice_alert_raises)

lemma process_threat_no_audio:
  assumes "ELEVENLABS_KEY cfg \<noteq> []"
    and "post (voice_request cfg (voice_text (ada_analyze_threat now a) a)) = Responds code content"
    and "code \<noteq> 200 \<or> content = []"
  shows "process_threat cfg post now now_utc st a =
     (log_append st \<lparr>timestamp = isoformat_utc now_utc, alert = a, analysis = ada_analyze_threat now a\<rparr>,
      [voice_request cfg (voice_text (ada_analyze_threat now a) a)],
      Inr (respond (ada_analyze_threat now a) None))"
  using assms by (auto simp: process_threat_def Let_def generate_voice_alert_responds)

lemma process_threat_audio:
  assumes "ELEVENLABS_KEY cfg \<noteq> []"
    and "post (voice_request cfg (voice_text (ada_analyze_threat now a) a)) = Responds 200 content"
    and "content \<noteq> []"
  shows "process_threat cfg post now now_utc st a =
     ((log_append st \<lparr>timestamp = isoformat_utc now_utc, alert = a, analysis = ada_analyze_threat now a\<rparr>)
        \<lparr>state_dict := (state_dict st)(audio_key (threat_id (ada_analyze_threat now a)) \<mapsto> content)\<rparr>,
      [voice_request cfg (voice_text (ada_analyze_threat now a) a)],
      Inr (respond (ada_analyze_threat now a) (Some (''/api/voice/'' @ threat_id (ada_analyze_threat now a)))))"
  using assms by (simp add: process_threat_def Let_def generate_voice_alert_responds log_append_def)

lemma key_with_key: "ELEVENLABS_KEY cfg_with_key \<noteq> []"
  by (simp add: cfg_with_key_def)

lemma key_no_key: "ELEVENLABS_KEY cfg_no_key = []"
  by (simp add: cfg_no_key_def)

lemma unreachable_raises: "service_unreachable req = Raises ConnectError"
  by (simp add: service_unreachable_def)

lemma timed_out_raises: "service_timed_out req = Raises TimeoutException"
  by (simp add: service_timed_out_def)

lemma replies_responds: "service_replies code content req = Responds code content"
  by (simp add: service_replies_def)

text \<open>
  C2, as stated, fails for a network error and for a timeout: \<^verbatim>\<open>client.post\<close> raises
  then, and neither \<^verbatim>\<open>generate_voice_alert\<close> nor \<^verbatim>\<open>process_threat\<close> has a handler.
  With a credential configured and an unreachable service the adapter ends in
  \<^verbatim>\<open>ConnectError\<close>, and so does the handler; with a service that does not answer in time
  both end in the timeout exception.
\<close>

theorem C2_exception_propagates_counterexample:
  "snd (generate_voice_alert cfg_with_key service_unreachable
      (ada_analyze_threat (clock 0 0) default_alert) default_alert) = Inl ConnectError \<and>
   snd (snd (process_threat cfg_with_key service_unreachable (clock 0 0) (clock 0 0)
      init_state default_alert)) = Inl ConnectError \<and>
   snd (generate_voice_alert cfg_with_key service_timed_out
      (ada_analyze_threat (clock 0 0) default_alert) default_alert) = Inl TimeoutException \<and>
   snd (snd (process_threat cfg_with_key service_timed_out (clock 0 0) (clock 0 0)
      init_state default_alert)) = Inl TimeoutException"
  by (simp add: generate_voice_alert_raises process_threat_raises key_with_key
      unreachable_raises timed_out_raises)

text \<open>
  C2, amended. With a credential configured the adapter sends exactly one request. When
  the service answers with a status other than 200, the adapter returns empty bytes and
  the handler returns its response with no \<^verbatim>\<open>voice_url\<close> and stores no audio: no error
  reaches the caller. When the call itself fails (a network error or the expiry of the
  timeout, which the HTTP client raises), the exception is not caught: it passes through
  the adapter and the handler and reaches the caller.
\<close>

theorem C2_non_200_is_absent_and_exceptions_propagate:
  assumes "ELEVENLABS_KEY cfg \<noteq> []"
  shows
   "(post (voice_request cfg (voice_text (ada_analyze_threat now a) a)) = Responds code content \<and>
       code \<noteq> 200 \<longrightarrow>
     generate_voice_alert cfg post (ada_analyze_threat now a) a =
       ([voice_request cfg (voice_text (ada_analyze_threat now a) a)], Inr []) \<and>
     snd (process_threat cfg post now now_utc st a) =
       ([voice_request cfg (voice_text (ada_analyze_threat now a) a)],
        Inr (respond (ada_analyze_threat now a) None)) \<and>
     state_dict (fst (process_threat cfg post now now_utc st a)) = state_dict st) \<and>
    (post (voice_request cfg (voice_text (ada_analyze_threat now a) a)) = Raises e \<longrightarrow>
     generate_voice_alert cfg post (ada_analyze_threat now a) a =
       ([voice_request cfg (voice_text (ada_analyze_threat now a) a)], Inl e) \<and>
     snd (process_threat cfg post now now_utc st a) =
       ([voice_request cfg (voice_text (ada_analyze_threat now a) a)], Inl e))"
proof (intro conjI impI)
  assume r: "post (voice_request cfg (voice_text (ada_analyze_threat now a) a)) = Responds code content
      \<and> code \<noteq> 200"
  then have p: "post (voice_request cfg (voice_text (ada_analyze_threat now a) a)) = Responds code content"
    and c: "code \<noteq> 200 \<or> content = []" by simp_all
  show "generate_voice_alert cfg post (ada_analyze_threat now a) a =
       ([voice_request cfg (voice_text (ada_analyze_threat now a) a)], Inr [])"
    using r by (simp add: generate_voice_alert_responds[of cfg post "ada_analyze_threat now a" a code content, OF assms p])
  show "snd (process_threat cfg post now now_utc st a) =
       ([voice_request cfg (voice_text (ada_analyze_threat now a) a)],
        Inr (respond (ada_analyze_threat now a) None))"
    using assms p c by (simp add: process_threat_no_audio)
  show "state_dict (fst (process_threat cfg post now now_utc st a)) = state_dict st"
    using assms p c by (simp add: process_threat_no_audio log_append_def)
next
  assume r: "post (voice_request cfg (voice_text (ada_analyze_threat now a) a)) = Raises e"
  show "generate_voice_alert cfg post (ada_analyze_threat now a) a =
       ([voice_request cfg (voice_text (ada_analyze_threat now a) a)], Inl e)"
    by (rule generate_voice_alert_raises[of cfg post "ada_analyze_threat now a" a e, OF assms r])
  show "snd (process_threat cfg post now now_utc st a) =
       ([voice_request cfg (voice_text (ada_analyze_threat now a) a)], Inl e)"
    using assms r by (simp add: process_threat_raises)
qed

theorem C2_non_200_is_absent_and_exceptions_propagate_witness:
  "ELEVENLABS_KEY cfg_with_key \<noteq> [] \<and>
   snd (generate_voice_alert cfg_with_key (service_replies 503 ''Service Unavailable'')
      (ada_analyze_threat (clock 0 0) default_alert) default_alert) = Inr [] \<and>
   snd (snd (process_threat cfg_with_key (service_replies 503 ''Service Unavailable'')
      (clock 0 0) (clock 0 0) init_state default_alert)) =
     Inr (respond (ada_analyze_threat (clock 0 0) default_alert) None) \<and>
   snd (snd (process_threat cfg_with_key service_timed_out
      (clock 0 0) (clock 0 0) init_state default_alert)) = Inl TimeoutException"
proof -
  note a = C2_non_200_is_absent_and_exceptions_propagate[OF key_with_key,
      of "service_replies 503 ''Service Unavailable''" "clock 0 0" default_alert 503
        "''Service Unavailable''" "clock 0 0" init_state]
  note b = C2_non_200_is_absent_and_exceptions_propagate[OF key_with_key,
      of service_timed_out "clock 0 0" default_alert _ _ "clock 0 0" init_state TimeoutException]
  from a have "snd (generate_voice_alert cfg_with_key (service_replies 503 ''Service Unavailable'')
      (ada_analyze_threat (clock 0 0) default_alert) default_alert) = Inr []"
    and "snd (snd (process_threat cfg_with_key (service_replies 503 ''Service Unavailable'')
      (clock 0 0) (clock 0 0) init_state default_alert)) =
     Inr (respond (ada_analyze_threat (clock 0 0) default_alert) None)"
    by (simp_all add: replies_responds)
  moreover from b have "snd (snd (process_threat cfg_with_key service_timed_out
      (clock 0 0) (clock 0 0) init_state default_alert)) = Inl TimeoutException"
    by (simp add: timed_out_raises)
  ultimately show ?thesis using key_with_key by blast
qed

text \<open>
  C6. When no synthesis credential is configured (\<^verbatim>\<open>ELEVENLABS_KEY\<close> is the empty
  string), \<^verbatim>\<open>process_threat\<close> returns, for every alert and whatever the service would
  do, a response whose \<^verbatim>\<open>voice_url\<close> is absent; it sends no request and stores no audio.
  The adapter itself, called without a credential, sends no request and returns empty
  bytes.
\<close>

theorem C6_no_credential_no_audio_no_request:
  assumes "ELEVENLABS_KEY cfg = []"
  shows "fst (snd (process_threat cfg post now now_utc st a)) = [] \<and>
    snd (snd (process_threat cfg post now now_utc st a)) = Inr (respond (ada_analyze_threat now a) None) \<and>
    response_voice_url (process_threat cfg post now now_utc st a) = Some None \<and>
    state_dict (fst (process_threat cfg post now now_utc st a)) = state_dict st \<and>
    generate_voice_alert cfg post an b = ([], Inr [])"
  by (simp add: process_threat_no_key[OF assms] generate_voice_alert_no_key[OF assms]
      response_voice_url_def voice_url_respond log_append_def)

theorem C6_no_credential_no_audio_no_request_witness:
  "ELEVENLABS_KEY cfg_no_key = [] \<and>
   fst (snd (process_threat cfg_no_key (service_replies 200 ''ID3-audio'') (clock 0 0) (clock 0 0)
      init_state default_alert)) = [] \<and>
   response_voice_url (process_threat cfg_no_key (service_replies 200 ''ID3-audio'') (clock 0 0)
      (clock 0 0) init_state default_alert) = Some None"
  using C6_no_credential_no_audio_no_request[OF key_no_key,
      of "service_replies 200 ''ID3-audio''" "clock 0 0" "clock 0 0" init_state default_alert]
    key_no_key
  by blast

section \<open>The log and a failing synthesis\<close>

lemma last_n_snoc: "0 < n \<Longrightarrow> last (last_n n (xs @ [x])) = x"
  by (simp add: last_n_def)

lemma last_n_snoc_mem: "0 < n \<Longrightarrow> x \<in> set (last_n n (xs @ [x]))"
  by (simp add: last_n_def)

text \<open>
  C9. \<^verbatim>\<open>process_threat\<close> appends the incident record before it turns to the voice
  adapter, and nothing removes it afterwards. So for every alert, configuration and
  behaviour of the service, the state the call leaves has the record at the end of the log
  and as the last record of \<^verbatim>\<open>get_threats\<close>; in particular when the synthesis request
  raises, the call ends in that exception and the log has grown all the same.
\<close>

theorem C9_record_logged_despite_synthesis_failure:
  "threat_log (fst (process_threat cfg post now now_utc st a)) =
     threat_log st @
       [\<lparr>timestamp = isoformat_utc now_utc, alert = a, analysis = ada_analyze_threat now a\<rparr>] \<and>
   last (get_threats (fst (process_threat cfg post now now_utc st a))) =
     \<lparr>timestamp = isoformat_utc now_utc, alert = a, analysis = ada_analyze_threat now a\<rparr> \<and>
   \<lparr>timestamp = isoformat_utc now_utc, alert = a, analysis = ada_analyze_threat now a\<rparr>
     \<in> set (get_threats (fst (process_threat cfg post now now_utc st a))) \<and>
   (ELEVENLABS_KEY cfg \<noteq> [] \<and>
    post (voice_request cfg (voice_text (ada_analyze_threat now a) a)) = Raises e \<longrightarrow>
      snd (snd (process_threat cfg post now now_utc st a)) = Inl e \<and>
      fst (process_threat cfg post now now_utc st a) =
        log_append st
          \<lparr>timestamp = isoformat_utc now_utc, alert = a, analysis = ada_analyze_threat now a\<rparr>)"
proof (intro conjI impI)
  show "threat_log (fst (process_threat cfg post now now_utc st a)) =
     threat_log st @
       [\<lparr>timestamp = isoformat_utc now_utc, alert = a, analysis = ada_analyze_threat now a\<rparr>]"
    by (rule process_threat_log)
  show "last (get_threats (fst (process_threat cfg post now now_utc st a))) =
     \<lparr>timestamp = isoformat_utc now_utc, alert = a, analysis = ada_analyze_threat now a\<rparr>"
    unfolding get_threats_def process_threat_log by (rule last_n_snoc) simp
  show "\<lparr>timestamp = isoformat_utc now_utc, alert = a, analysis = ada_analyze_threat now a\<rparr>
     \<in> set (get_threats (fst (process_threat cfg post now now_utc st a)))"
    unfolding get_threats_def process_threat_log by (rule last_n_snoc_mem) simp
next
  assume h: "ELEVENLABS_KEY cfg \<noteq> [] \<and>
    post (voice_request cfg (voice_text (ada_analyze_threat now a) a)) = Raises e"
  then show "snd (snd (process_threat cfg post now now_utc st a)) = Inl e"
    by (simp add: process_threat_raises)
  from h show "fst (process_threat cfg post now now_utc st a) =
        log_append st
          \<lparr>timestamp = isoformat_utc now_utc, alert = a, analysis = ada_analyze_threat now a\<rparr>"
    by (simp add: process_threat_raises)
qed

theorem C9_record_logged_despite_synthesis_failure_witness:
  "ELEVENLABS_KEY cfg_with_key \<noteq> [] \<and>
   service_unreachable
     (voice_request cfg_with_key (voice_text (ada_analyze_threat (clock 0 0) default_alert) default_alert)) =
     Raises ConnectError \<and>
   snd (snd (process_threat cfg_with_key service_unreachable (clock 0 0) (clock 1 0)
      init_state default_alert)) = Inl ConnectError \<and>
   get_threats (fst (process_threat cfg_with_key service_unreachable (clock 0 0) (clock 1 0)
      init_state default_alert)) =
     [\<lparr>timestamp = isoformat_utc (clock 1 0), alert = default_alert,
       analysis = ada_analyze_threat (clock 0 0) default_alert\<rparr>]"
proof -
  note t = C9_record_logged_despite_synthesis_failure[of cfg_with_key service_unreachable
      "clock 0 0" "clock 1 0" init_state default_alert ConnectError]
  have r: "service_unreachable
     (voice_request cfg_with_key (voice_text (ada_analyze_threat (clock 0 0) default_alert) default_alert)) =
     Raises ConnectError" by (rule unreachable_raises)
  from t r key_with_key
  have e: "snd (snd (process_threat cfg_with_key service_unreachable (clock 0 0) (clock 1 0)
      init_state default_alert)) = Inl ConnectError"
    and l: "threat_log (fst (process_threat cfg_with_key service_unreachable (clock 0 0) (clock 1 0)
      init_state default_alert)) = threat_log init_state @
     [\<lparr>timestamp = isoformat_utc (clock 1 0), alert = default_alert,
       analysis = ada_analyze_threat (clock 0 0) default_alert\<rparr>]"
    by blast+
  from l have "get_threats (fst (process_threat cfg_with_key service_unreachable (clock 0 0) (clock 1 0)
      init_state default_alert)) =
     [\<lparr>timestamp = isoformat_utc (clock 1 0), alert = default_alert,
       analysis = ada_analyze_threat (clock 0 0) default_alert\<rparr>]"
    by (simp add: get_threats_def last_n_def threat_log_init)
  with e r key_with_key show ?thesis by blast
qed

section \<open>The stored audio\<close>

lemma audio_key_inj: "audio_key x = audio_key y \<Longrightarrow> x = y"
  by (simp add: audio_key_def)

lemma process_threat_dict:
  "state_dict (fst (process_threat cfg post now now_utc st a)) = state_dict st \<or>
   (\<exists>audio_bytes. audio_bytes \<noteq> [] \<and>
      state_dict (fst (process_threat cfg post now now_utc st a)) =
        (state_dict st)(audio_key (threat_id (ada_analyze_threat now a)) \<mapsto> audio_bytes))"
  by (auto simp: process_threat_def Let_def log_append_def split: prod.splits sum.splits)

lemma process_threat_dict_other:
  "k \<noteq> audio_key (threat_id (ada_analyze_threat now a)) \<Longrightarrow>
   state_dict (fst (process_threat cfg post now now_utc st a)) k = state_dict st k"
  using process_threat_dict[of cfg post now now_utc st a] by auto

lemma run_calls_dict_other:
  "\<forall>c\<in>set cs. threat_id (ada_analyze_threat (call_now c) (call_alert c)) \<noteq> tid \<Longrightarrow>
   state_dict (run_calls cfg st cs) (audio_key tid) = state_dict st (audio_key tid)"
proof (induction cs arbitrary: st)
  case Nil
  then show ?case by simp
next
  case (Cons c cs)
  then have n: "audio_key tid \<noteq> audio_key (threat_id (ada_analyze_threat (call_now c) (call_alert c)))"
    by (auto dest: audio_key_inj)
  from Cons show ?case
    by (simp add: process_threat_dict_other[OF n])
qed

lemma state_dict_init: "state_dict init_state k = None"
  by (simp add: init_state_def)

lemma strftime_clock_0: "strftime_YmdHMS (clock 0 0) = ''20250314093000''"
  by code_simp

text \<open>
  C7. When the dictionary holds nothing under the key of an identifier,
  \<^verbatim>\<open>get_voice_alert\<close> answers with the JSON body \<^verbatim>\<open>{"error": "Voice not found"}\<close> and
  status 404: not an audio payload, and no exception. That is the case for every
  identifier no call has stored audio under: after any sequence of calls of
  \<^verbatim>\<open>process_threat\<close>, from a state with no entry for the identifier and with no call that
  produced this identifier, the answer is 404.
\<close>

theorem C7_audio_not_found:
  "(state_dict st (audio_key tid) = None \<longrightarrow>
      get_voice_alert st tid = JSONResponse [(''error'', ''Voice not found'')] 404) \<and>
   (state_dict st (audio_key tid) = None \<and>
    (\<forall>c\<in>set cs. threat_id (ada_analyze_threat (call_now c) (call_alert c)) \<noteq> tid) \<longrightarrow>
      get_voice_alert (run_calls cfg st cs) tid = JSONResponse [(''error'', ''Voice not found'')] 404)"
proof (intro conjI impI)
  assume "state_dict st (audio_key tid) = None"
  then show "get_voice_alert st tid = JSONResponse [(''error'', ''Voice not found'')] 404"
    by (simp add: get_voice_alert_def)
next
  assume h: "state_dict st (audio_key tid) = None \<and>
    (\<forall>c\<in>set cs. threat_id (ada_analyze_threat (call_now c) (call_alert c)) \<noteq> tid)"
  then have "state_dict (run_calls cfg st cs) (audio_key tid) = None"
    by (simp add: run_calls_dict_other)
  then show "get_voice_alert (run_calls cfg st cs) tid =
      JSONResponse [(''error'', ''Voice not found'')] 404"
    by (simp add: get_voice_alert_def)
qed

lemma audio_call_id:
  "threat_id (ada_analyze_threat (call_now audio_call) (call_alert audio_call)) = ''THR-20250314093000''"
  by (simp add: audio_call_def threat_id_ada strftime_clock_0)

theorem C7_audio_not_found_witness:
  "state_dict init_state (audio_key ''THR-20990101000000'') = None \<and>
   get_voice_alert init_state ''THR-20990101000000'' =
     JSONResponse [(''error'', ''Voice not found'')] 404 \<and>
   threat_id (ada_analyze_threat (call_now audio_call) (call_alert audio_call)) \<noteq>
     ''THR-20990101000000'' \<and>
   get_voice_alert (run_calls cfg_with_key init_state [audio_call]) ''THR-20990101000000'' =
     JSONResponse [(''error'', ''Voice not found'')] 404"
proof -
  have n: "state_dict init_state (audio_key ''THR-20990101000000'') = None"
    by (rule state_dict_init)
  have i: "threat_id (ada_analyze_threat (call_now audio_call) (call_alert audio_call)) \<noteq>
     ''THR-20990101000000''"
    by (simp add: audio_call_id)
  from C7_audio_not_found[of init_state "''THR-20990101000000''" "[audio_call]" cfg_with_key] n i
  show ?thesis by simp
qed

text \<open>A stored, nonempty blob is served: the same call's own identifier gets the audio.\<close>

lemma stored_audio_is_served:
  "get_voice_alert (run_calls cfg_with_key init_state [audio_call]) ''THR-20250314093000'' =
     Response ''ID3-audio'' ''audio/mpeg''"
proof -
  have "process_threat cfg_with_key (call_post audio_call) (call_now audio_call) (call_utc audio_call)
      init_state (call_alert audio_call) =
    ((log_append init_state \<lparr>timestamp = isoformat_utc (clock 0 0), alert = default_alert,
        analysis = ada_analyze_threat (clock 0 0) default_alert\<rparr>)
        \<lparr>state_dict := (state_dict init_state)(audio_key ''THR-20250314093000'' \<mapsto> ''ID3-audio'')\<rparr>,
      [voice_request cfg_with_key (voice_text (ada_analyze_threat (clock 0 0) default_alert) default_alert)],
      Inr (respond (ada_analyze_threat (clock 0 0) default_alert) (Some (''/api/voice/'' @ ''THR-20250314093000''))))"
    using key_with_key
    by (simp add: audio_call_def process_threat_audio replies_responds threat_id_ada strftime_clock_0)
  then show ?thesis
    by (simp add: get_voice_alert_def)
qed

text \<open>
  C10. \<^verbatim>\<open>get_voice_alert\<close> tests the truth value of what it looks up, so empty bytes
  under the key get the same 404 answer as no entry at all: the two cannot be told apart
  at this interface. \<^verbatim>\<open>process_threat\<close> in turn never stores empty bytes: a call leaves
  the dictionary as it was or adds nonempty bytes under its identifier's key, so an entry
  with empty bytes after a call was there before it.
\<close>

theorem C10_empty_blob_is_not_found:
  "(state_dict st (audio_key tid) = Some [] \<longrightarrow>
      get_voice_alert st tid = JSONResponse [(''error'', ''Voice not found'')] 404) \<and>
   get_voice_alert (st\<lparr>state_dict := (state_dict st)(audio_key tid \<mapsto> [])\<rparr>) tid =
     get_voice_alert (st\<lparr>state_dict := (state_dict st)(audio_key tid := None)\<rparr>) tid \<and>
   (state_dict (fst (process_threat cfg post now now_utc st a)) = state_dict st \<or>
    (\<exists>audio_bytes. audio_bytes \<noteq> [] \<and>
       state_dict (fst (process_threat cfg post now now_utc st a)) =
         (state_dict st)(audio_key (threat_id (ada_analyze_threat now a)) \<mapsto> audio_bytes))) \<and>
   (\<forall>k. state_dict (fst (process_threat cfg post now now_utc st a)) k = Some [] \<longrightarrow>
      state_dict st k = Some [])"
proof (intro conjI impI allI)
  assume "state_dict st (audio_key tid) = Some []"
  then show "get_voice_alert st tid = JSONResponse [(''error'', ''Voice not found'')] 404"
    by (simp add: get_voice_alert_def)
next
  show "get_voice_alert (st\<lparr>state_dict := (state_dict st)(audio_key tid \<mapsto> [])\<rparr>) tid =
     get_voice_alert (st\<lparr>state_dict := (state_dict st)(audio_key tid := None)\<rparr>) tid"
    by (simp add: get_voice_alert_def)
next
  show "state_dict (fst (process_threat cfg post now now_utc st a)) = state_dict st \<or>
    (\<exists>audio_bytes. audio_bytes \<noteq> [] \<and>
       state_dict (fst (process_threat cfg post now now_utc st a)) =
         (state_dict st)(audio_key (threat_id (ada_analyze_threat now a)) \<mapsto> audio_bytes))"
    by (rule process_threat_dict)
next
  fix k
  assume e: "state_dict (fst (process_threat cfg post now now_utc st a)) k = Some []"
  from process_threat_dict[of cfg post now now_utc st a] e
  show "state_dict st k = Some []"
    by (auto split: if_splits)
qed

theorem C10_empty_blob_is_not_found_witness:
  "state_dict empty_blob_state (audio_key ''THR-20250314093000'') = Some [] \<and>
   get_voice_alert empty_blob_state ''THR-20250314093000'' =
     JSONResponse [(''error'', ''Voice not found'')] 404 \<and>
   state_dict (fst (process_threat cfg_no_key service_unreachable (clock 1 0) (clock 1 0)
      empty_blob_state default_alert)) (audio_key ''THR-20250314093000'') = Some []"
proof -
  have s: "state_dict empty_blob_state (audio_key ''THR-20250314093000'') = Some []"
    by (simp add: empty_blob_state_def)
  have p: "state_dict (fst (process_threat cfg_no_key service_unreachable (clock 1 0) (clock 1 0)
      empty_blob_state default_alert)) (audio_key ''THR-20250314093000'') = Some []"
    by (simp add: process_threat_no_key[OF key_no_key] log_append_def s)
  from C10_empty_blob_is_not_found[of empty_blob_state "''THR-20250314093000''" cfg_no_key
      service_unreachable "clock 1 0" "clock 1 0" default_alert] s p
  show ?thesis by blast
qed

end
